theory Spec2Isabelle
  imports Main
begin

section \<open>The ticket list of the Zendesk ticket viewer\<close>

text \<open>
  A shallow embedding of class \<open>TicketList\<close> of \<open>zendesk_ticket_viewer/cli_urwid.py\<close>:
  the prefetching cache (\<open>get_tickets\<close>), the rendering step (\<open>refresh_widgets\<close>), the
  movement (\<open>scroll\<close>, \<open>render\<close>, \<open>keypress\<close>) and the open action (\<open>_action_open\<close>).

  Python integers are unbounded and are modelled by \<open>int\<close>. The values that
  \<open>numpy.clip\<close> returns are 64-bit; rows of a terminal, key movements and cache lengths
  are far from that limit, and the model does not follow the integers there.
\<close>

subsection \<open>Python and numpy primitives\<close>

text \<open>
  \<open>numpy.clip(a, a_min, a_max)\<close> on scalars is \<open>minimum(a_max, maximum(a, a_min))\<close>.
  When \<open>a_min > a_max\<close> it raises nothing and returns \<open>a_max\<close>.
\<close>

definition clip :: "int \<Rightarrow> int \<Rightarrow> int \<Rightarrow> int" where
  "clip a a_min a_max = min a_max (max a a_min)"

text \<open>
  The bound of a Python slice \<open>xs[i:j]\<close>: a negative bound counts from the end of the
  list, and every bound is then cut to \<open>0 .. len(xs)\<close>.
\<close>

definition slice_bound :: "nat \<Rightarrow> int \<Rightarrow> nat" where
  "slice_bound n i = (if i < 0 then nat (max (i + int n) 0) else min (nat i) n)"

text \<open>The slice \<open>xs[i:j]\<close>; it is empty when the start is not below the stop.\<close>

definition py_slice :: "'a list \<Rightarrow> int \<Rightarrow> int \<Rightarrow> 'a list" where
  "py_slice xs i j =
     (let start = slice_bound (length xs) i;
          stop = slice_bound (length xs) j
      in take (stop - start) (drop start xs))"

datatype error = IndexError

text \<open>
  The subscript \<open>xs[i]\<close>: a negative index counts from the end, and an index outside
  \<open>-len(xs) .. len(xs) - 1\<close> raises \<open>IndexError\<close>.
\<close>

definition py_index :: "'a list \<Rightarrow> int \<Rightarrow> error + 'a" where
  "py_index xs i =
     (let k = (if i < 0 then i + int (length xs) else i)
      in if k < 0 \<or> int (length xs) \<le> k then Inl IndexError else Inr (xs ! nat k))"

subsection \<open>The state of a ticket list\<close>

text \<open>
  The fields of a \<open>TicketList\<close> that the methods below read and write.
  \<^item> \<open>ticket_generator\<close> is the state of the iterator \<open>self.client.tickets()\<close>. The
    iterator itself belongs to the API client; it is the parameter \<open>nxt\<close> of every
    function that pulls: \<open>nxt g = Some (t, g')\<close> when \<open>next\<close> returns ticket \<open>t\<close> and
    leaves the iterator in state \<open>g'\<close>, and \<open>nxt g = None\<close> when \<open>next\<close> raises
    \<open>StopIteration\<close>. An iterator that has raised \<open>StopIteration\<close> raises it at every
    later call (the iterator protocol), so exhaustion leaves the state as it is.
  \<^item> \<open>ticket_cache\<close>, \<open>offset\<close>, \<open>index_highlighted\<close> are the fields of the same name.
  \<^item> \<open>body\<close> is what \<open>refresh_widgets\<close> stores in the body of every column: one cell
    for each visible ticket, in order, with the flag of the highlighted row. The text
    of a cell (the formatter of the column) is not modelled.
  \<^item> \<open>pulls\<close> is not a field of the class: it counts the calls of
    \<open>next(self.ticket_generator)\<close> made so far, those that raised included.
\<close>

record ('g, 'a) ticket_list =
  ticket_generator :: 'g
  ticket_cache :: "'a list"
  offset :: int
  index_highlighted :: int
  body :: "('a \<times> bool) list"
  pulls :: nat

definition header_size :: int where
  "header_size = 1"

definition footer_size :: int where
  "footer_size = 0"

definition page_speed :: int where
  "page_speed = 1"

definition nonbody_overhead :: int where
  "nonbody_overhead = header_size + footer_size"

text \<open>
  A size is the pair that urwid passes to a box widget; the constructor passes \<open>None\<close>
  as its first component. The methods read the second component only, under the name
  \<open>maxcol\<close>.
\<close>

type_synonym size = "int option \<times> int"

subsection \<open>The prefetching cache\<close>

text \<open>
  The loop of \<open>get_tickets\<close>:
  \<^verbatim>\<open>
    while True:
        if prefetch_index < len(self._ticket_cache):
            break
        self._ticket_cache.append(next(self.ticket_generator))
  \<close>
  inside \<open>try ... except StopIteration: pass\<close>. Every round that does not leave the
  loop makes the cache one longer, so the loop always ends.
\<close>

function fill_cache ::
  "('g \<Rightarrow> ('a \<times> 'g) option) \<Rightarrow> int \<Rightarrow> ('g, 'a) ticket_list \<Rightarrow> ('g, 'a) ticket_list"
where
  "fill_cache nxt prefetch_index s =
     (if prefetch_index < int (length (ticket_cache s)) then s
      else case nxt (ticket_generator s) of
             None \<Rightarrow> s\<lparr>pulls := pulls s + 1\<rparr>
           | Some (t, g') \<Rightarrow>
               fill_cache nxt prefetch_index
                 (s\<lparr>ticket_generator := g',
                    ticket_cache := ticket_cache s @ [t],
                    pulls := pulls s + 1\<rparr>))"
  by pat_completeness auto
termination
  by (relation "measure (\<lambda>(nxt, p, s). nat (p + 1 - int (length (ticket_cache s))))") auto

declare fill_cache.simps [simp del]

definition get_tickets ::
  "('g \<Rightarrow> ('a \<times> 'g) option) \<Rightarrow> int \<Rightarrow> int \<Rightarrow> ('g, 'a) ticket_list
     \<Rightarrow> 'a list \<times> ('g, 'a) ticket_list"
where
  "get_tickets nxt offs limit s =
     (let prefetch_index = 2 * limit + offs;
          s' = fill_cache nxt prefetch_index s
      in (py_slice (ticket_cache s') offs (offs + limit), s'))"

subsection \<open>Rendering and movement\<close>

text \<open>
  The cells of one column: \<open>enumerate(visible_tickets)\<close>, the row whose index is the
  highlighted one being wrapped as \<open>important\<close>.
\<close>

definition cell_widgets :: "'a list \<Rightarrow> int \<Rightarrow> ('a \<times> bool) list" where
  "cell_widgets visible_tickets ih =
     map (\<lambda>(index, ticket). (ticket, int index = ih)) (enumerate 0 visible_tickets)"

text \<open>The upper bound of the clamp in \<open>refresh_widgets\<close>.\<close>

definition highlight_bound :: "int \<Rightarrow> 'a list \<Rightarrow> int" where
  "highlight_bound maxcol visible_tickets =
     min (maxcol - nonbody_overhead) (int (length visible_tickets)) - 1"

definition refresh_widgets ::
  "('g \<Rightarrow> ('a \<times> 'g) option) \<Rightarrow> size \<Rightarrow> ('g, 'a) ticket_list \<Rightarrow> ('g, 'a) ticket_list"
where
  "refresh_widgets nxt sz s =
     (let maxcol = snd sz;
          (visible_tickets, s') = get_tickets nxt (offset s) (maxcol - nonbody_overhead) s;
          ih = clip (index_highlighted s) 0 (highlight_bound maxcol visible_tickets)
      in s'\<lparr>body := cell_widgets visible_tickets ih\<rparr>)"

definition scroll ::
  "('g \<Rightarrow> ('a \<times> 'g) option) \<Rightarrow> size \<Rightarrow> int \<Rightarrow> ('g, 'a) ticket_list \<Rightarrow> ('g, 'a) ticket_list"
where
  "scroll nxt sz movement s =
     (let maxcol = snd sz;
          can_move_to = clip (index_highlighted s + movement) 0 (maxcol - nonbody_overhead - 1);
          movement' = movement - (can_move_to - index_highlighted s);
          s1 = s\<lparr>index_highlighted := can_move_to\<rparr>;
          s2 = s1\<lparr>offset := clip (offset s1 + movement') 0 (int (length (ticket_cache s1)) - 1)\<rparr>
      in refresh_widgets nxt sz s2)"

text \<open>\<open>render\<close> scrolls by 0 and then draws, which changes no field.\<close>

definition render ::
  "('g \<Rightarrow> ('a \<times> 'g) option) \<Rightarrow> size \<Rightarrow> ('g, 'a) ticket_list \<Rightarrow> ('g, 'a) ticket_list"
where
  "render nxt sz s = scroll nxt sz 0 s"

text \<open>
  \<open>_action_open\<close> reads \<open>self._ticket_cache[self.offset + self.index_highlighted]\<close> and
  logs it; it writes no field.
\<close>

definition action_open :: "('g, 'a) ticket_list \<Rightarrow> error + ('g, 'a) ticket_list" where
  "action_open s =
     (case py_index (ticket_cache s) (offset s + index_highlighted s) of
        Inl e \<Rightarrow> Inl e
      | Inr ticket_id \<Rightarrow> Inr s)"

definition key_movements :: "int \<Rightarrow> string \<Rightarrow> int" where
  "key_movements page_jump key =
     (if key = ''up'' then - 1
      else if key = ''down'' then 1
      else if key = ''page up'' then - page_jump
      else if key = ''page down'' then page_jump
      else 0)"

definition keypress ::
  "('g \<Rightarrow> ('a \<times> 'g) option) \<Rightarrow> size \<Rightarrow> string \<Rightarrow> ('g, 'a) ticket_list
     \<Rightarrow> error + ('g, 'a) ticket_list"
where
  "keypress nxt sz key s =
     (let maxcol = snd sz in
      case (if key = '' '' \<or> key = ''enter'' then action_open s else Inr s) of
        Inl e \<Rightarrow> Inl e
      | Inr s1 \<Rightarrow>
          (let page_jump = page_speed * (maxcol - nonbody_overhead)
           in Inr (scroll nxt sz (key_movements page_jump key) s1)))"

text \<open>
  The constructor: an empty cache, offset and highlight 0, and a first refresh
  "as if there was room for 1 row". Its argument is the fresh iterator.
\<close>

definition init :: "('g \<Rightarrow> ('a \<times> 'g) option) \<Rightarrow> 'g \<Rightarrow> ('g, 'a) ticket_list" where
  "init nxt g =
     refresh_widgets nxt (None, header_size + 1)
       \<lparr>ticket_generator = g, ticket_cache = [], offset = 0, index_highlighted = 0,
        body = [], pulls = 0\<rparr>"

subsection \<open>Record sources\<close>

text \<open>
  The simplest iterator: its state is the list of the tickets it has yet to yield.
\<close>

fun list_next :: "'a list \<Rightarrow> ('a \<times> 'a list) option" where
  "list_next [] = None"
| "list_next (t # ts) = Some (t, ts)"

text \<open>
  \<open>delivers nxt g ts\<close>: from state \<open>g\<close> the iterator yields exactly the tickets \<open>ts\<close>,
  in this order, and then raises \<open>StopIteration\<close>.
\<close>

fun delivers :: "('g \<Rightarrow> ('a \<times> 'g) option) \<Rightarrow> 'g \<Rightarrow> 'a list \<Rightarrow> bool" where
  "delivers nxt g [] = (nxt g = None)"
| "delivers nxt g (t # ts) =
     (case nxt g of None \<Rightarrow> False | Some (t', g') \<Rightarrow> t' = t \<and> delivers nxt g' ts)"

subsection \<open>The class invariant\<close>

text \<open>
  The constructor pulls before anything else happens, so the cache of a ticket list is
  empty only when its iterator has nothing to give.
\<close>

definition primed :: "('g \<Rightarrow> ('a \<times> 'g) option) \<Rightarrow> ('g, 'a) ticket_list \<Rightarrow> bool" where
  "primed nxt s = (ticket_cache s = [] \<longrightarrow> nxt (ticket_generator s) = None)"

subsection \<open>The movement and the short read as the specification words them\<close>

text \<open>
  \<open>spec_move\<close> follows the four steps of \<open>move\<close> in the specification, on the pair
  \<open>(offset, highlighted_index)\<close>: the target of the highlight, the part of the delta it
  consumed, the remainder, and the offset clipped to \<open>max(cached_count - 1, 0)\<close>.
\<close>

definition spec_move :: "int \<Rightarrow> int \<Rightarrow> int \<Rightarrow> int \<times> int \<Rightarrow> int \<times> int" where
  "spec_move capacity delta cached_count v =
     (let target = clip (snd v + delta) 0 (capacity - 1);
          consumed = target - snd v;
          remainder = delta - consumed
      in (clip (fst v + remainder) 0 (max (cached_count - 1) 0), target))"

text \<open>
  \<open>spec_short_read\<close> follows property P5 of the specification: the number of records
  of \<open>fetch(offset, limit)\<close> on a source of \<open>n\<close> records.
\<close>

definition spec_short_read :: "int \<Rightarrow> int \<Rightarrow> int \<Rightarrow> int" where
  "spec_short_read n offs limit = (if n \<le> offs then 0 else min limit (n - offs))"

section \<open>Properties\<close>

subsection \<open>The primitives\<close>

lemma clip_id: "a_min \<le> a \<Longrightarrow> a \<le> a_max \<Longrightarrow> clip a a_min a_max = a"
  by (simp add: clip_def)

lemma clip_idem: "clip (clip a a_min a_max) a_min a_max = clip a a_min a_max"
  by (simp add: clip_def min_def max_def)

lemma clip_bounds:
  "a_min \<le> a_max \<Longrightarrow> a_min \<le> clip a a_min a_max \<and> clip a a_min a_max \<le> a_max"
  by (simp add: clip_def)

text \<open>Over an empty range the clip returns the upper bound, whatever its argument.\<close>

lemma clip_crossed: "a_max \<le> a_min \<Longrightarrow> clip a a_min a_max = a_max"
  by (simp add: clip_def)

text \<open>
  A slice whose end is not above its start is empty, as long as the end is not a
  negative number that Python would count from the end of the list.
\<close>

lemma py_slice_empty: "j \<le> i \<Longrightarrow> j = i \<or> 0 \<le> j \<Longrightarrow> py_slice xs i j = []"
  by (auto simp add: py_slice_def slice_bound_def Let_def)

lemma py_slice_length:
  "0 \<le> i \<Longrightarrow> 0 \<le> j \<Longrightarrow>
   length (py_slice xs i j) = min (nat j) (length xs) - min (nat i) (length xs)"
  by (auto simp add: py_slice_def slice_bound_def Let_def)

lemma cell_widgets_Nil [simp]: "cell_widgets [] ih = []"
  by (simp add: cell_widgets_def)

lemma length_cell_widgets [simp]: "length (cell_widgets ts ih) = length ts"
  by (simp add: cell_widgets_def)

subsection \<open>What the loop of the cache does\<close>

lemma fill_cache_offset [simp]: "offset (fill_cache nxt p s) = offset s"
  by (induction nxt p s rule: fill_cache.induct)
     (subst fill_cache.simps, auto split: option.splits)

lemma fill_cache_index_highlighted [simp]:
  "index_highlighted (fill_cache nxt p s) = index_highlighted s"
  by (induction nxt p s rule: fill_cache.induct)
     (subst fill_cache.simps, auto split: option.splits)

lemma fill_cache_body [simp]: "body (fill_cache nxt p s) = body s"
  by (induction nxt p s rule: fill_cache.induct)
     (subst fill_cache.simps, auto split: option.splits)

text \<open>The cache only grows, at its end.\<close>

lemma fill_cache_extends: "\<exists>ts. ticket_cache (fill_cache nxt p s) = ticket_cache s @ ts"
proof (induction nxt p s rule: fill_cache.induct)
  case (1 nxt p s)
  show ?case
  proof (cases "p < int (length (ticket_cache s))")
    case True
    then show ?thesis by (subst fill_cache.simps) simp
  next
    case False
    show ?thesis
    proof (cases "nxt (ticket_generator s)")
      case None
      with False show ?thesis by (subst fill_cache.simps) simp
    next
      case (Some a)
      obtain t g' where a: "a = (t, g')" by (cases a)
      from "1.IH" [OF False Some a [symmetric]] show ?thesis
        using False Some a by (subst fill_cache.simps) auto
    qed
  qed
qed

lemma fill_cache_length:
  "length (ticket_cache s) \<le> length (ticket_cache (fill_cache nxt p s))"
  using fill_cache_extends [of nxt p s] by auto

text \<open>On an exhausted iterator the loop pulls once, in vain, unless it breaks at once.\<close>

lemma fill_cache_exhausted:
  "nxt (ticket_generator s) = None \<Longrightarrow>
   fill_cache nxt p s =
     (if p < int (length (ticket_cache s)) then s else s\<lparr>pulls := pulls s + 1\<rparr>)"
  by (subst fill_cache.simps) simp

text \<open>The loop ends by its \<open>break\<close> or by \<open>StopIteration\<close>.\<close>

lemma fill_cache_stops:
  "p < int (length (ticket_cache (fill_cache nxt p s))) \<or>
   nxt (ticket_generator (fill_cache nxt p s)) = None"
  by (induction nxt p s rule: fill_cache.induct)
     (subst (1 2) fill_cache.simps, auto split: option.splits)

text \<open>
  On an iterator that has exactly \<open>ts\<close> left, the loop appends the first
  \<open>prefetch_index + 1 - len(cache)\<close> of them.
\<close>

lemma fill_cache_delivers:
  "delivers nxt (ticket_generator s) ts \<Longrightarrow>
   ticket_cache (fill_cache nxt p s) =
     ticket_cache s @ take (nat (p + 1 - int (length (ticket_cache s)))) ts"
proof (induction nxt p s arbitrary: ts rule: fill_cache.induct)
  case (1 nxt p s)
  show ?case
  proof (cases "p < int (length (ticket_cache s))")
    case True
    then show ?thesis by (subst fill_cache.simps) simp
  next
    case False
    show ?thesis
    proof (cases ts)
      case Nil
      with "1.prems" False show ?thesis by (subst fill_cache.simps) simp
    next
      case (Cons t ts')
      with "1.prems" obtain g' where
        n: "nxt (ticket_generator s) = Some (t, g')" and d: "delivers nxt g' ts'"
        by (auto split: option.splits)
      let ?s' = "s\<lparr>ticket_generator := g', ticket_cache := ticket_cache s @ [t],
                    pulls := pulls s + 1\<rparr>"
      have "ticket_cache (fill_cache nxt p ?s') =
            ticket_cache ?s' @ take (nat (p + 1 - int (length (ticket_cache ?s')))) ts'"
        using "1.IH" [OF False n refl, of ts'] d by simp
      moreover have "fill_cache nxt p s = fill_cache nxt p ?s'"
        using False n by (subst fill_cache.simps) simp
      moreover have "nat (p + 1 - int (length (ticket_cache s))) =
                     Suc (nat (p + 1 - int (length (ticket_cache ?s'))))"
        using False by simp
      ultimately show ?thesis using Cons by simp
    qed
  qed
qed

text \<open>The loop keeps the invariant, and sets it up when it is asked for any record.\<close>

lemma fill_cache_primed: "primed nxt s \<Longrightarrow> primed nxt (fill_cache nxt p s)"
proof (induction nxt p s rule: fill_cache.induct)
  case (1 nxt p s)
  show ?case
  proof (cases "p < int (length (ticket_cache s))")
    case True
    with "1.prems" show ?thesis by (subst fill_cache.simps) simp
  next
    case False
    show ?thesis
    proof (cases "nxt (ticket_generator s)")
      case None
      with False "1.prems" show ?thesis
        by (subst fill_cache.simps) (simp add: primed_def)
    next
      case (Some a)
      obtain t g' where a: "a = (t, g')" by (cases a)
      have "primed nxt (s\<lparr>ticket_generator := g', ticket_cache := ticket_cache s @ [t],
                          pulls := pulls s + 1\<rparr>)"
        by (simp add: primed_def)
      from "1.IH" [OF False Some a [symmetric] this] show ?thesis
        using False Some a by (subst fill_cache.simps) simp
    qed
  qed
qed

lemma fill_cache_primes: "0 \<le> p \<Longrightarrow> primed nxt (fill_cache nxt p s)"
  using fill_cache_stops [of p nxt s] by (auto simp add: primed_def)

subsection \<open>What each method leaves alone\<close>

lemma get_tickets_offset [simp]: "offset (snd (get_tickets nxt offs limit s)) = offset s"
  by (simp add: get_tickets_def Let_def)

lemma get_tickets_index_highlighted [simp]:
  "index_highlighted (snd (get_tickets nxt offs limit s)) = index_highlighted s"
  by (simp add: get_tickets_def Let_def)

lemma get_tickets_extends:
  "\<exists>ts. ticket_cache (snd (get_tickets nxt offs limit s)) = ticket_cache s @ ts"
  by (simp add: get_tickets_def Let_def fill_cache_extends)

lemma refresh_widgets_offset [simp]: "offset (refresh_widgets nxt sz s) = offset s"
  by (simp add: refresh_widgets_def Let_def split: prod.splits)
     (metis get_tickets_offset snd_conv)

lemma refresh_widgets_index_highlighted [simp]:
  "index_highlighted (refresh_widgets nxt sz s) = index_highlighted s"
  by (simp add: refresh_widgets_def Let_def split: prod.splits)
     (metis get_tickets_index_highlighted snd_conv)

lemma refresh_widgets_cache:
  "ticket_cache (refresh_widgets nxt sz s) =
   ticket_cache (snd (get_tickets nxt (offset s) (snd sz - nonbody_overhead) s))"
  by (simp add: refresh_widgets_def Let_def split: prod.splits)

lemma refresh_widgets_body:
  "body (refresh_widgets nxt sz s) =
   cell_widgets (fst (get_tickets nxt (offset s) (snd sz - nonbody_overhead) s))
     (clip (index_highlighted s) 0
        (highlight_bound (snd sz)
           (fst (get_tickets nxt (offset s) (snd sz - nonbody_overhead) s))))"
  by (simp add: refresh_widgets_def Let_def split: prod.splits)

lemma refresh_widgets_extends:
  "\<exists>ts. ticket_cache (refresh_widgets nxt sz s) = ticket_cache s @ ts"
  by (simp add: refresh_widgets_cache get_tickets_extends)

lemma scroll_index_highlighted:
  "index_highlighted (scroll nxt sz d s) =
   clip (index_highlighted s + d) 0 (snd sz - nonbody_overhead - 1)"
  by (simp add: scroll_def Let_def)

lemma scroll_offset:
  "offset (scroll nxt sz d s) =
   clip (offset s + (d - (clip (index_highlighted s + d) 0 (snd sz - nonbody_overhead - 1)
                            - index_highlighted s)))
        0 (int (length (ticket_cache s)) - 1)"
  by (simp add: scroll_def Let_def)

lemma scroll_extends: "\<exists>ts. ticket_cache (scroll nxt sz d s) = ticket_cache s @ ts"
proof -
  obtain s2 where s2: "scroll nxt sz d s = refresh_widgets nxt sz s2"
    and c: "ticket_cache s2 = ticket_cache s"
    by (simp add: scroll_def Let_def)
  from refresh_widgets_extends [of nxt sz s2] show ?thesis
    by (simp add: s2 c)
qed

lemma scroll_length: "length (ticket_cache s) \<le> length (ticket_cache (scroll nxt sz d s))"
  using scroll_extends [of nxt sz d s] by auto

lemma get_tickets_fst:
  "fst (get_tickets nxt offs limit s) =
   py_slice (ticket_cache (snd (get_tickets nxt offs limit s))) offs (offs + limit)"
  by (simp add: get_tickets_def Let_def)

lemma get_tickets_cache_delivers:
  "delivers nxt (ticket_generator s) ts \<Longrightarrow>
   ticket_cache (snd (get_tickets nxt offs limit s)) =
     ticket_cache s @ take (nat (2 * limit + offs + 1 - int (length (ticket_cache s)))) ts"
  by (simp add: get_tickets_def Let_def fill_cache_delivers)

lemma refresh_widgets_state:
  "ticket_cache (refresh_widgets nxt sz s) =
     ticket_cache (fill_cache nxt (2 * (snd sz - nonbody_overhead) + offset s) s) \<and>
   ticket_generator (refresh_widgets nxt sz s) =
     ticket_generator (fill_cache nxt (2 * (snd sz - nonbody_overhead) + offset s) s)"
  by (simp add: refresh_widgets_def get_tickets_def Let_def)

text \<open>Once the iterator is exhausted, a movement leaves the cache as it is.\<close>

lemma scroll_cache_exhausted:
  assumes "nxt (ticket_generator s) = None"
  shows "ticket_cache (scroll nxt sz d s) = ticket_cache s"
proof -
  obtain s2 where s2: "scroll nxt sz d s = refresh_widgets nxt sz s2"
    and c: "ticket_cache s2 = ticket_cache s"
    and g: "ticket_generator s2 = ticket_generator s"
    by (simp add: scroll_def Let_def)
  have "ticket_cache (refresh_widgets nxt sz s2) = ticket_cache s2"
    using assms g
    by (simp add: refresh_widgets_cache get_tickets_def Let_def fill_cache_exhausted)
  then show ?thesis by (simp add: s2 c)
qed

subsection \<open>The class invariant holds in every state of a ticket list\<close>

lemma init_primed: "primed nxt (init nxt g)"
proof -
  let ?s0 = "\<lparr>ticket_generator = g, ticket_cache = [], offset = 0, index_highlighted = 0,
              body = [], pulls = 0\<rparr>"
  have "primed nxt
          (fill_cache nxt
             (2 * (snd (None::int option, header_size + 1) - nonbody_overhead) + offset ?s0)
             ?s0)"
    by (rule fill_cache_primes)
       (simp add: header_size_def footer_size_def nonbody_overhead_def)
  then show ?thesis
    using refresh_widgets_state [of nxt "(None, header_size + 1)" ?s0]
    by (simp add: primed_def init_def)
qed

lemma get_tickets_primed:
  "primed nxt s \<Longrightarrow> primed nxt (snd (get_tickets nxt offs limit s))"
  by (simp add: get_tickets_def Let_def fill_cache_primed)

lemma refresh_widgets_primed: "primed nxt s \<Longrightarrow> primed nxt (refresh_widgets nxt sz s)"
  using refresh_widgets_state [of nxt sz s]
    fill_cache_primed [of nxt s "2 * (snd sz - nonbody_overhead) + offset s"]
  by (simp add: primed_def)

lemma scroll_primed: "primed nxt s \<Longrightarrow> primed nxt (scroll nxt sz d s)"
proof -
  assume p: "primed nxt s"
  obtain s2 where s2: "scroll nxt sz d s = refresh_widgets nxt sz s2"
    and c: "ticket_cache s2 = ticket_cache s"
    and g: "ticket_generator s2 = ticket_generator s"
    by (simp add: scroll_def Let_def)
  from p c g have "primed nxt s2" by (simp add: primed_def)
  then show ?thesis unfolding s2 by (rule refresh_widgets_primed)
qed

lemma render_primed: "primed nxt s \<Longrightarrow> primed nxt (render nxt sz s)"
  by (simp add: render_def scroll_primed)

lemma keypress_primed:
  "primed nxt s \<Longrightarrow> keypress nxt sz key s = Inr s' \<Longrightarrow> primed nxt s'"
  by (auto simp add: keypress_def action_open_def Let_def scroll_primed
           split: sum.splits if_splits)

subsection \<open>The prefetching cache\<close>

text \<open>
  C5 (as amended). Once the source has signalled exhaustion, a later
  \<open>get_tickets(offset, limit)\<close> returns the slice \<open>[offset : offset + limit]\<close> of the
  cached records and leaves the cache and the iterator as they are, so the same holds
  for every fetch after it. The class keeps no mark of the exhaustion: the fetch calls
  \<open>next\<close> once more, and gets \<open>StopIteration\<close> again, whenever
  \<open>offset + 2 * limit\<close> is not below the length of the cache; it makes no call
  otherwise.
\<close>

theorem get_tickets_exhausted:
  "nxt (ticket_generator s) = None \<Longrightarrow>
   get_tickets nxt offs limit s =
     (py_slice (ticket_cache s) offs (offs + limit),
      if 2 * limit + offs < int (length (ticket_cache s)) then s
      else s\<lparr>pulls := pulls s + 1\<rparr>)"
  by (simp add: get_tickets_def Let_def fill_cache_exhausted)

text \<open>
  An instance: a new ticket list over two tickets has met the exhaustion in its
  constructor, after three calls of \<open>next\<close>. Fetching one record at offset 0 again
  returns the first ticket and makes a fourth call.
\<close>

theorem get_tickets_exhausted_witness:
  "list_next (ticket_generator (init list_next [1, 2::nat])) = None \<and>
   get_tickets list_next 0 1 (init list_next [1, 2::nat]) =
     ([1], (init list_next [1, 2::nat])\<lparr>pulls := 4\<rparr>)"
proof -
  have e: "list_next (ticket_generator (init list_next [1, 2::nat])) = None"
    by code_simp
  have "py_slice (ticket_cache (init list_next [1, 2::nat])) 0 (0 + 1) = [1]"
    by code_simp
  moreover have "\<not> 2 * 1 + 0 < int (length (ticket_cache (init list_next [1, 2::nat])))"
    by code_simp
  moreover have "pulls (init list_next [1, 2::nat]) + 1 = 4"
    by code_simp
  ultimately show ?thesis
    using get_tickets_exhausted [of list_next "init list_next [1, 2::nat]" 0 1] e by simp
qed

text \<open>
  That no fetch pulls after the exhaustion fails on the same ticket list: the iterator
  is exhausted, three calls of \<open>next\<close> have been made, and the next fetch makes the
  fourth.
\<close>

theorem get_tickets_pulls_again_counterexample:
  "list_next (ticket_generator (init list_next [1, 2::nat])) = None \<and>
   pulls (init list_next [1, 2::nat]) = 3 \<and>
   pulls (snd (get_tickets list_next 0 1 (init list_next [1, 2::nat]))) = 4"
  by code_simp

text \<open>
  The arithmetic of the short read: \<open>n\<close> records cached, \<open>m\<close> left in the source, and
  the loop appending as many of them as the prefetch index asks for.
\<close>

lemma short_read_arith:
  fixes offs limit :: int and n m :: nat
  assumes "0 \<le> offs" and "0 \<le> limit"
  shows "int (min (nat (offs + limit)) (n + min m (nat (2 * limit + offs + 1 - int n)))
              - min (nat offs) (n + min m (nat (2 * limit + offs + 1 - int n)))) =
         (if int (n + m) \<le> offs then 0 else min limit (int (n + m) - offs))"
proof (cases "m \<le> nat (2 * limit + offs + 1 - int n)")
  case True
  then have m: "min m (nat (2 * limit + offs + 1 - int n)) = m"
    by simp
  show ?thesis
  proof (cases "int (n + m) \<le> offs")
    case True
    then have "n + m \<le> nat offs" and "n + m \<le> nat (offs + limit)"
      using assms by linarith+
    then show ?thesis using True by (simp add: m)
  next
    case False
    then have "nat offs \<le> n + m"
      by linarith
    then have "int (min (nat (offs + limit)) (n + m) - min (nat offs) (n + m)) =
               int (min (nat (offs + limit)) (n + m)) - offs"
      using assms by (simp add: min_def)
    also have "\<dots> = min limit (int (n + m) - offs)"
      using assms
      by (cases "nat (offs + limit) \<le> n + m") (simp_all add: min_def, linarith+)
    finally show ?thesis using False by (simp add: m)
  qed
next
  case False
  then have m: "min m (nat (2 * limit + offs + 1 - int n)) = nat (2 * limit + offs + 1 - int n)"
    by simp
  have "nat (offs + limit) \<le> n + nat (2 * limit + offs + 1 - int n)"
    using assms by linarith
  moreover have "nat offs \<le> n + nat (2 * limit + offs + 1 - int n)"
    using assms by linarith
  moreover have "limit < int (n + m) - offs"
    using False assms by linarith
  ultimately show ?thesis
    using assms by (simp add: m nat_diff_distrib)
qed

text \<open>
  C6 (as amended). For every source that is exhausted after delivering exactly \<open>N\<close>
  records, whether the cache has pulled them all or not, and every \<open>offset \<ge> 0\<close> and
  \<open>limit \<ge> 0\<close>: \<open>get_tickets(offset, limit)\<close> returns no record when \<open>offset \<ge> N\<close> and
  exactly \<open>min(limit, N - offset)\<close> records when \<open>offset < N\<close>. It raises nothing: the
  exhaustion is caught, and a slice never raises.
\<close>

theorem get_tickets_short_read:
  assumes "delivers nxt (ticket_generator s) ts" and "0 \<le> offs" and "0 \<le> limit"
  shows "int (length (fst (get_tickets nxt offs limit s))) =
         spec_short_read (int (length (ticket_cache s) + length ts)) offs limit"
proof -
  let ?k = "nat (2 * limit + offs + 1 - int (length (ticket_cache s)))"
  let ?c = "ticket_cache (snd (get_tickets nxt offs limit s))"
  have len: "length ?c = length (ticket_cache s) + min (length ts) ?k"
    by (simp add: get_tickets_cache_delivers [OF assms(1)])
  have "fst (get_tickets nxt offs limit s) = py_slice ?c offs (offs + limit)"
    by (rule get_tickets_fst)
  then have "length (fst (get_tickets nxt offs limit s)) =
             min (nat (offs + limit)) (length ?c) - min (nat offs) (length ?c)"
    using assms(2,3) by (simp only: py_slice_length)
  then have "int (length (fst (get_tickets nxt offs limit s))) =
             int (min (nat (offs + limit)) (length (ticket_cache s) + min (length ts) ?k)
                  - min (nat offs) (length (ticket_cache s) + min (length ts) ?k))"
    by (simp only: len)
  also have "\<dots> = (if int (length (ticket_cache s) + length ts) \<le> offs then 0
                     else min limit (int (length (ticket_cache s) + length ts) - offs))"
    by (rule short_read_arith [OF assms(2,3)])
  finally show ?thesis
    by (simp only: spec_short_read_def)
qed

text \<open>
  An instance: five tickets, three of them cached by the constructor. Four records
  asked at offset 3 give the two that remain.
\<close>

theorem get_tickets_short_read_witness:
  "delivers list_next (ticket_generator (init list_next [1, 2, 3, 4, 5::nat])) [4, 5] \<and>
   (0::int) \<le> 3 \<and> (0::int) \<le> 4 \<and>
   fst (get_tickets list_next 3 4 (init list_next [1, 2, 3, 4, 5::nat])) = [4, 5] \<and>
   int (length (fst (get_tickets list_next 3 4 (init list_next [1, 2, 3, 4, 5::nat])))) =
     spec_short_read 5 3 4"
proof -
  have d: "delivers list_next (ticket_generator (init list_next [1, 2, 3, 4, 5::nat])) [4, 5]"
    by code_simp
  have n: "int (length (ticket_cache (init list_next [1, 2, 3, 4, 5::nat])) + length [4, 5::nat])
           = 5"
    by code_simp
  have v: "fst (get_tickets list_next 3 4 (init list_next [1, 2, 3, 4, 5::nat])) = [4, 5]"
    by code_simp
  have "int (length (fst (get_tickets list_next 3 4 (init list_next [1, 2, 3, 4, 5::nat])))) =
        spec_short_read 5 3 4"
    using get_tickets_short_read [OF d, of 3 4] by (simp only: n)
  with d v show ?thesis by simp
qed

text \<open>
  With a negative offset the count is another one. On a source with no ticket the
  first render leaves the offset at -1, and the refresh fetches there: one record is
  asked of an empty cache, none comes, and \<open>min(limit, N - offset)\<close> is 1.
\<close>

theorem get_tickets_negative_offset_counterexample:
  "delivers list_next
     (ticket_generator (render list_next (None, 2) (init list_next ([]::nat list)))) [] \<and>
   ticket_cache (render list_next (None, 2) (init list_next ([]::nat list))) = [] \<and>
   offset (render list_next (None, 2) (init list_next ([]::nat list))) = - 1 \<and>
   int (length (fst (get_tickets list_next (- 1) 1
                       (render list_next (None, 2) (init list_next ([]::nat list))))))
     \<noteq> spec_short_read 0 (- 1) 1"
  by code_simp

lemma prefetch_arith:
  fixes offs limit :: int and n m :: nat
  shows "min (offs + 2 * limit) (int (n + m))
         \<le> int (n + min m (nat (2 * limit + offs + 1 - int n)))"
proof (cases "m \<le> nat (2 * limit + offs + 1 - int n)")
  case True
  then have "min m (nat (2 * limit + offs + 1 - int n)) = m"
    by simp
  then show ?thesis
    by (simp only: min.cobounded2)
next
  case False
  then have "min m (nat (2 * limit + offs + 1 - int n)) = nat (2 * limit + offs + 1 - int n)"
    by simp
  moreover have "offs + 2 * limit \<le> int (n + nat (2 * limit + offs + 1 - int n))"
    by linarith
  ultimately show ?thesis
    by (simp only: min.coboundedI1)
qed

text \<open>
  C7. After \<open>get_tickets(offset, limit)\<close> the cache holds at least
  \<open>min(offset + 2 * limit, total_available)\<close> records, where \<open>total_available\<close> counts
  the records already cached and those the source has yet to deliver. This holds for
  every offset and every limit.
\<close>

theorem get_tickets_prefetch:
  assumes "delivers nxt (ticket_generator s) ts"
  shows "min (offs + 2 * limit) (int (length (ticket_cache s) + length ts))
         \<le> int (length (ticket_cache (snd (get_tickets nxt offs limit s))))"
proof -
  let ?k = "nat (2 * limit + offs + 1 - int (length (ticket_cache s)))"
  have "length (ticket_cache (snd (get_tickets nxt offs limit s))) =
        length (ticket_cache s) + min (length ts) ?k"
    by (simp add: get_tickets_cache_delivers [OF assms])
  then show ?thesis
    by (simp only: prefetch_arith)
qed

text \<open>
  Two instances on twelve tickets, three of them cached: one record at offset 1 brings
  the cache to four records, and ten records at offset 0 bring in all twelve.
\<close>

theorem get_tickets_prefetch_witness:
  "delivers list_next
     (ticket_generator (init list_next [1, 2, 3, 4, 5, 6, 7, 8, 9, 10, 11, 12::nat]))
     [4, 5, 6, 7, 8, 9, 10, 11, 12] \<and>
   min (1 + 2 * 1) (int (length (ticket_cache
          (init list_next [1, 2, 3, 4, 5, 6, 7, 8, 9, 10, 11, 12::nat]))
        + length [4, 5, 6, 7, 8, 9, 10, 11, 12::nat]))
     \<le> int (length (ticket_cache (snd (get_tickets list_next 1 1
          (init list_next [1, 2, 3, 4, 5, 6, 7, 8, 9, 10, 11, 12::nat]))))) \<and>
   min (0 + 2 * 10) (int (length (ticket_cache
          (init list_next [1, 2, 3, 4, 5, 6, 7, 8, 9, 10, 11, 12::nat]))
        + length [4, 5, 6, 7, 8, 9, 10, 11, 12::nat]))
     \<le> int (length (ticket_cache (snd (get_tickets list_next 0 10
          (init list_next [1, 2, 3, 4, 5, 6, 7, 8, 9, 10, 11, 12::nat])))))"
proof -
  have d: "delivers list_next
             (ticket_generator (init list_next [1, 2, 3, 4, 5, 6, 7, 8, 9, 10, 11, 12::nat]))
             [4, 5, 6, 7, 8, 9, 10, 11, 12]"
    by code_simp
  from d get_tickets_prefetch [OF d, of 1 1] get_tickets_prefetch [OF d, of 0 10]
  show ?thesis by simp
qed

text \<open>
  On a source that never runs dry the bound is the prefetch target itself: whenever
  the source is not exhausted after a fetch, the cache is longer than
  \<open>offset + 2 * limit\<close>.
\<close>

lemma prefetch_target_reached:
  "nxt (ticket_generator (snd (get_tickets nxt offs limit s))) \<noteq> None \<Longrightarrow>
   offs + 2 * limit < int (length (ticket_cache (snd (get_tickets nxt offs limit s))))"
  using fill_cache_stops [of "2 * limit + offs" nxt s]
  by (auto simp add: get_tickets_def Let_def add.commute)

subsection \<open>Rendering\<close>

text \<open>
  C9. \<open>refresh_widgets\<close> never writes the viewport: the offset and the highlighted
  index it leaves are those it found, the clamp of the highlight being a local value.
  Only the cache may change, and it grows at its end.
\<close>

theorem refresh_widgets_keeps_viewport:
  "offset (refresh_widgets nxt sz s) = offset s \<and>
   index_highlighted (refresh_widgets nxt sz s) = index_highlighted s \<and>
   (\<exists>ts. ticket_cache (refresh_widgets nxt sz s) = ticket_cache s @ ts)"
  by (simp add: refresh_widgets_extends)

text \<open>
  C3 (as amended). For every state and every size whose capacity
  \<open>maxcol - nonbody_overhead\<close> is 0, or is negative with \<open>offset + capacity \<ge> 0\<close>,
  \<open>refresh_widgets\<close> produces no row. It raises nothing: no step of it can raise. The
  clamp of the highlight is still performed, over the empty range from 0 to
  \<open>capacity - 1\<close>; \<open>numpy.clip\<close> returns the upper bound, a negative number, and no row
  would bear it.
\<close>

theorem refresh_widgets_degenerate:
  assumes "snd sz - nonbody_overhead \<le> 0"
    and "snd sz - nonbody_overhead = 0 \<or> 0 \<le> offset s + (snd sz - nonbody_overhead)"
  shows "body (refresh_widgets nxt sz s) = [] \<and>
         highlight_bound (snd sz)
           (fst (get_tickets nxt (offset s) (snd sz - nonbody_overhead) s)) < 0 \<and>
         clip (index_highlighted s) 0
           (highlight_bound (snd sz)
              (fst (get_tickets nxt (offset s) (snd sz - nonbody_overhead) s)))
         = snd sz - nonbody_overhead - 1"
proof -
  let ?cap = "snd sz - nonbody_overhead"
  have "fst (get_tickets nxt (offset s) ?cap s) = []"
    unfolding get_tickets_fst using assms by (intro py_slice_empty) auto
  then show ?thesis
    using assms(1) by (simp add: refresh_widgets_body highlight_bound_def clip_def)
qed

text \<open>An instance: a single row, which the header takes; the capacity is 0.\<close>

theorem refresh_widgets_degenerate_witness:
  "snd (None::int option, 1::int) - nonbody_overhead \<le> 0 \<and>
   snd (None::int option, 1::int) - nonbody_overhead = 0 \<and>
   body (refresh_widgets list_next (None, 1) (init list_next [1, 2, 3, 4, 5::nat])) = [] \<and>
   clip (index_highlighted (init list_next [1, 2, 3, 4, 5::nat])) 0
     (highlight_bound (snd (None::int option, 1::int))
        (fst (get_tickets list_next (offset (init list_next [1, 2, 3, 4, 5::nat]))
               (snd (None::int option, 1::int) - nonbody_overhead)
               (init list_next [1, 2, 3, 4, 5::nat]))))
   = - 1"
proof -
  have a: "snd (None::int option, 1::int) - nonbody_overhead \<le> 0"
    by (simp add: nonbody_overhead_def header_size_def footer_size_def)
  have z: "snd (None::int option, 1::int) - nonbody_overhead = 0"
    by (simp add: nonbody_overhead_def header_size_def footer_size_def)
  have b: "snd (None::int option, 1::int) - nonbody_overhead = 0 \<or>
           0 \<le> offset (init list_next [1, 2, 3, 4, 5::nat])
                 + (snd (None::int option, 1::int) - nonbody_overhead)"
    using z by simp
  have c: "snd (None::int option, 1::int) - nonbody_overhead - 1 = - 1"
    by (simp add: nonbody_overhead_def header_size_def footer_size_def)
  from refresh_widgets_degenerate [OF a b, of list_next] a z c show ?thesis
    by simp
qed

text \<open>
  With no row at all for the widget the capacity is -1, and the claim fails: the slice
  of the cache ends at \<open>offset + capacity = -1\<close>, which Python counts from the end of
  the list, and two of the three cached tickets are shown. The clamp of the highlight
  then runs from 0 to -2.
\<close>

theorem refresh_widgets_negative_capacity_counterexample:
  "body (refresh_widgets list_next (None, 0) (init list_next [1, 2, 3, 4, 5::nat]))
     = [(1, False), (2, False)] \<and>
   highlight_bound 0 [1, 2::nat] = - 2"
  by code_simp

subsection \<open>The movement\<close>

text \<open>
  C1 (as amended). For every state whose cache is not empty, every size and every
  movement, \<open>scroll\<close> computes the movement of the specification, with \<open>cached_count\<close>
  the number of records in the cache when the call begins: the highlight becomes
  \<open>target = clip(index_highlighted + movement, 0, capacity - 1)\<close>, and the offset becomes
  \<open>clip(offset + remainder, 0, cached_count - 1)\<close>, where the remainder is the movement
  less \<open>target - index_highlighted\<close>. The records that the refresh at the end of the
  call adds to the cache play no part.
\<close>

theorem scroll_computes:
  "ticket_cache s \<noteq> [] \<Longrightarrow>
   (offset (scroll nxt sz d s), index_highlighted (scroll nxt sz d s)) =
   spec_move (snd sz - nonbody_overhead) d (int (length (ticket_cache s)))
     (offset s, index_highlighted s)"
  by (cases "ticket_cache s")
     (simp_all add: scroll_offset scroll_index_highlighted spec_move_def Let_def)

text \<open>
  An instance: six tickets, a body of four rows, page down from the first row. The
  highlight goes to the last row and the offset to 1.
\<close>

theorem scroll_computes_witness:
  "ticket_cache (init list_next [1, 2, 3, 4, 5, 6::nat]) \<noteq> [] \<and>
   (offset (scroll list_next (None, 5) 4 (init list_next [1, 2, 3, 4, 5, 6::nat])),
    index_highlighted (scroll list_next (None, 5) 4 (init list_next [1, 2, 3, 4, 5, 6::nat]))) =
   (1, 3)"
proof -
  have ne: "ticket_cache (init list_next [1, 2, 3, 4, 5, 6::nat]) \<noteq> []"
    by code_simp
  have "spec_move (snd (None::int option, 5::int) - nonbody_overhead) 4
          (int (length (ticket_cache (init list_next [1, 2, 3, 4, 5, 6::nat]))))
          (offset (init list_next [1, 2, 3, 4, 5, 6::nat]),
           index_highlighted (init list_next [1, 2, 3, 4, 5, 6::nat]))
        = (1, 3)"
    by code_simp
  with scroll_computes [OF ne, of list_next "(None, 5)" 4] ne show ?thesis by simp
qed

text \<open>
  With \<open>cached_count\<close> taken after the call, the movement of the specification is not
  what \<open>scroll\<close> computes. A new ticket list over twelve tickets has cached three of
  them. A movement of 8 in a body of four rows leaves a remainder of 5; the offset is
  clipped to the three cached records and becomes 2. The refresh then brings the cache
  to eleven records, against which the specification would leave the offset at 5.
\<close>

theorem scroll_spec_counterexample:
  "(offset (scroll list_next (None, 5) 8
              (init list_next [1, 2, 3, 4, 5, 6, 7, 8, 9, 10, 11, 12::nat])),
    index_highlighted (scroll list_next (None, 5) 8
              (init list_next [1, 2, 3, 4, 5, 6, 7, 8, 9, 10, 11, 12::nat])))
   \<noteq> spec_move (5 - nonbody_overhead) 8
        (int (length (ticket_cache (scroll list_next (None, 5) 8
              (init list_next [1, 2, 3, 4, 5, 6, 7, 8, 9, 10, 11, 12::nat])))))
        (offset (init list_next [1, 2, 3, 4, 5, 6, 7, 8, 9, 10, 11, 12::nat]),
         index_highlighted (init list_next [1, 2, 3, 4, 5, 6, 7, 8, 9, 10, 11, 12::nat]))"
  by code_simp

text \<open>
  C2. After \<open>scroll\<close> the highlighted index should lie between 0 and \<open>capacity - 1\<close>
  whenever the capacity is positive, and the offset between 0 and
  \<open>max(cached_count - 1, 0)\<close>: never negative, even when the cache is empty. The code
  breaks the last part. On a ticket list whose source has no ticket the cache is empty,
  the clip of the offset runs over the empty range from 0 to -1, and \<open>numpy.clip\<close>
  returns its upper bound: the first render leaves the offset at -1.
\<close>

theorem scroll_empty_cache_offset:
  "ticket_cache (init list_next ([]::nat list)) = [] \<and>
   offset (scroll list_next (None, 5) 0 (init list_next ([]::nat list))) = - 1"
  by code_simp

text \<open>
  The bounds that do hold after \<open>scroll\<close>: the highlight is within the body whenever
  the body has a row, and the offset is within the records cached at the call whenever
  there is one.
\<close>

lemma scroll_bounds:
  "0 < snd sz - nonbody_overhead \<Longrightarrow>
     0 \<le> index_highlighted (scroll nxt sz d s) \<and>
     index_highlighted (scroll nxt sz d s) \<le> snd sz - nonbody_overhead - 1"
  "ticket_cache s \<noteq> [] \<Longrightarrow>
     0 \<le> offset (scroll nxt sz d s) \<and>
     offset (scroll nxt sz d s) \<le> int (length (ticket_cache s)) - 1"
proof -
  show "0 < snd sz - nonbody_overhead \<Longrightarrow>
     0 \<le> index_highlighted (scroll nxt sz d s) \<and>
     index_highlighted (scroll nxt sz d s) \<le> snd sz - nonbody_overhead - 1"
    unfolding scroll_index_highlighted by (rule clip_bounds) simp
next
  assume "ticket_cache s \<noteq> []"
  then have "0 \<le> int (length (ticket_cache s)) - 1"
    by (cases "ticket_cache s") simp_all
  then show "0 \<le> offset (scroll nxt sz d s) \<and>
     offset (scroll nxt sz d s) \<le> int (length (ticket_cache s)) - 1"
    unfolding scroll_offset by (rule clip_bounds)
qed

text \<open>
  C8. When neither the movement by \<open>d\<close> nor the movement back meets a bound of a clip
  (the highlight is within the body before and after the movement by \<open>d\<close>, and the
  offset is within the cached records), \<open>scroll\<close> by \<open>d\<close> and then by \<open>-d\<close>, at the
  same size, restores the offset and the highlighted index.
\<close>

theorem scroll_there_and_back:
  assumes "0 \<le> index_highlighted s"
    and "index_highlighted s \<le> snd sz - nonbody_overhead - 1"
    and "0 \<le> index_highlighted s + d"
    and "index_highlighted s + d \<le> snd sz - nonbody_overhead - 1"
    and "0 \<le> offset s"
    and "offset s \<le> int (length (ticket_cache s)) - 1"
  shows "offset (scroll nxt sz (- d) (scroll nxt sz d s)) = offset s \<and>
         index_highlighted (scroll nxt sz (- d) (scroll nxt sz d s)) = index_highlighted s"
proof -
  let ?s1 = "scroll nxt sz d s"
  have h1: "index_highlighted ?s1 = index_highlighted s + d"
    using assms(3,4) by (simp add: scroll_index_highlighted clip_id)
  have o1: "offset ?s1 = offset s"
    using assms(3-6) by (simp add: scroll_offset clip_id)
  have l1: "offset s \<le> int (length (ticket_cache ?s1)) - 1"
    using assms(6) scroll_length [of s nxt sz d] by linarith
  have h2: "index_highlighted (scroll nxt sz (- d) ?s1) = index_highlighted s"
    using assms(1,2) by (simp add: scroll_index_highlighted [of nxt sz "- d" ?s1] h1 clip_id)
  have o2: "offset (scroll nxt sz (- d) ?s1) = offset s"
    using assms(1,2,5) l1 by (simp add: scroll_offset [of nxt sz "- d" ?s1] h1 o1 clip_id)
  from h2 o2 show ?thesis by simp
qed

text \<open>
  An instance: nine tickets and a body of four rows; after a page down the highlight
  is on the last row and the offset is 1. Two rows up and two rows down again lead
  back there.
\<close>

theorem scroll_there_and_back_witness:
  "offset (scroll list_next (None, 5) 4 (init list_next [1, 2, 3, 4, 5, 6, 7, 8, 9::nat])) = 1 \<and>
   index_highlighted
     (scroll list_next (None, 5) 4 (init list_next [1, 2, 3, 4, 5, 6, 7, 8, 9::nat])) = 3 \<and>
   offset (scroll list_next (None, 5) (- (- 2)) (scroll list_next (None, 5) (- 2)
     (scroll list_next (None, 5) 4 (init list_next [1, 2, 3, 4, 5, 6, 7, 8, 9::nat])))) = 1 \<and>
   index_highlighted (scroll list_next (None, 5) (- (- 2)) (scroll list_next (None, 5) (- 2)
     (scroll list_next (None, 5) 4 (init list_next [1, 2, 3, 4, 5, 6, 7, 8, 9::nat])))) = 3"
proof -
  let ?s = "scroll list_next (None, 5) 4 (init list_next [1, 2, 3, 4, 5, 6, 7, 8, 9::nat])"
  have o: "offset ?s = 1" and h: "index_highlighted ?s = 3"
    by code_simp+
  have a1: "0 \<le> index_highlighted ?s"
    and a2: "index_highlighted ?s \<le> snd (None::int option, 5::int) - nonbody_overhead - 1"
    and a3: "0 \<le> index_highlighted ?s + (- 2)"
    and a4: "index_highlighted ?s + (- 2) \<le> snd (None::int option, 5::int) - nonbody_overhead - 1"
    and a5: "0 \<le> offset ?s"
    and a6: "offset ?s \<le> int (length (ticket_cache ?s)) - 1"
    by code_simp+
  from scroll_there_and_back [OF a1 a2 a3 a4 a5 a6, of list_next]
  have "offset (scroll list_next (None, 5) (- (- 2)) (scroll list_next (None, 5) (- 2) ?s)) = 1 \<and>
        index_highlighted
          (scroll list_next (None, 5) (- (- 2)) (scroll list_next (None, 5) (- 2) ?s)) = 3"
    by (simp only: o h)
  with o h show ?thesis by blast
qed

text \<open>
  C10. In every state of a ticket list, whatever its offset and its highlighted index,
  and at every size, scrolling by 0 twice gives the offset and the highlighted index
  that scrolling by 0 once gives. The states of a ticket list are those in which the
  class invariant \<open>primed\<close> holds: the constructor sets it up and every method keeps
  it (\<open>init_primed\<close>, \<open>scroll_primed\<close>, \<open>refresh_widgets_primed\<close>, \<open>get_tickets_primed\<close>,
  \<open>keypress_primed\<close>).
\<close>

theorem scroll_zero_idempotent:
  assumes "primed nxt s"
  shows "offset (scroll nxt sz 0 (scroll nxt sz 0 s)) = offset (scroll nxt sz 0 s) \<and>
         index_highlighted (scroll nxt sz 0 (scroll nxt sz 0 s)) =
           index_highlighted (scroll nxt sz 0 s)"
proof -
  let ?s1 = "scroll nxt sz 0 s"
  have h1: "index_highlighted ?s1 = clip (index_highlighted s) 0 (snd sz - nonbody_overhead - 1)"
    by (simp add: scroll_index_highlighted)
  have h2: "index_highlighted (scroll nxt sz 0 ?s1) = index_highlighted ?s1"
    by (simp add: scroll_index_highlighted [of nxt sz 0 ?s1] h1 clip_idem)
  have o2: "offset (scroll nxt sz 0 ?s1) =
            clip (offset ?s1) 0 (int (length (ticket_cache ?s1)) - 1)"
    by (simp add: scroll_offset [of nxt sz 0 ?s1] h1 clip_idem)
  have "clip (offset ?s1) 0 (int (length (ticket_cache ?s1)) - 1) = offset ?s1"
  proof (cases "ticket_cache s = []")
    case True
    with assms have "nxt (ticket_generator s) = None"
      by (simp add: primed_def)
    then have "ticket_cache ?s1 = []"
      using True by (simp add: scroll_cache_exhausted)
    moreover have "offset ?s1 = - 1"
      using True by (simp add: scroll_offset clip_crossed)
    ultimately show ?thesis by (simp add: clip_crossed)
  next
    case False
    then have "0 \<le> int (length (ticket_cache s)) - 1"
      by (cases "ticket_cache s") simp_all
    then have "0 \<le> offset ?s1 \<and> offset ?s1 \<le> int (length (ticket_cache s)) - 1"
      unfolding scroll_offset by (rule clip_bounds)
    moreover have "int (length (ticket_cache s)) \<le> int (length (ticket_cache ?s1))"
      using scroll_length [of s nxt sz 0] by simp
    ultimately show ?thesis by (intro clip_id) linarith+
  qed
  with o2 h2 show ?thesis by simp
qed

text \<open>
  An instance: nine tickets, the highlight on the fourth row after a page down, then
  the terminal shrinks to two rows. The first scroll by 0 brings the highlight to row 0
  and moves the offset from 1 to 4; the second changes neither.
\<close>

theorem scroll_zero_idempotent_witness:
  "primed list_next
     (scroll list_next (None, 5) 4 (init list_next [1, 2, 3, 4, 5, 6, 7, 8, 9::nat])) \<and>
   offset (scroll list_next (None, 2) 0
     (scroll list_next (None, 5) 4 (init list_next [1, 2, 3, 4, 5, 6, 7, 8, 9::nat]))) = 4 \<and>
   index_highlighted (scroll list_next (None, 2) 0
     (scroll list_next (None, 5) 4 (init list_next [1, 2, 3, 4, 5, 6, 7, 8, 9::nat]))) = 0 \<and>
   offset (scroll list_next (None, 2) 0 (scroll list_next (None, 2) 0
     (scroll list_next (None, 5) 4 (init list_next [1, 2, 3, 4, 5, 6, 7, 8, 9::nat])))) = 4 \<and>
   index_highlighted (scroll list_next (None, 2) 0 (scroll list_next (None, 2) 0
     (scroll list_next (None, 5) 4 (init list_next [1, 2, 3, 4, 5, 6, 7, 8, 9::nat])))) = 0"
proof -
  let ?s = "scroll list_next (None, 5) 4 (init list_next [1, 2, 3, 4, 5, 6, 7, 8, 9::nat])"
  have p: "primed list_next ?s"
    by code_simp
  have o: "offset (scroll list_next (None, 2) 0 ?s) = 4"
    and h: "index_highlighted (scroll list_next (None, 2) 0 ?s) = 0"
    by code_simp+
  from scroll_zero_idempotent [OF p, of "(None, 2)"] p o h show ?thesis
    by simp
qed

subsection \<open>The open action\<close>

text \<open>
  The subscript of \<open>_action_open\<close> raises whenever the cache has no record at
  \<open>offset + index_highlighted\<close>.
\<close>

lemma action_open_out_of_range:
  "int (length (ticket_cache s)) \<le> offset s + index_highlighted s \<or>
   offset s + index_highlighted s < - int (length (ticket_cache s)) \<Longrightarrow>
   action_open s = Inl IndexError"
  by (auto simp add: action_open_def py_index_def Let_def)

text \<open>
  C4. In a state whose cache has no record at \<open>offset + index_highlighted\<close>, the empty
  cache included, the open action should raise nothing and change nothing. The code
  breaks this: on a ticket list whose source has no ticket the action raises
  \<open>IndexError\<close>, and so does the key \<open>enter\<close>, which runs the action before it
  scrolls.
\<close>

theorem action_open_empty_cache_raises:
  "ticket_cache (init list_next ([]::nat list)) = [] \<and>
   action_open (init list_next ([]::nat list)) = Inl IndexError \<and>
   keypress list_next (None, 5) ''enter'' (init list_next ([]::nat list)) = Inl IndexError"
  by code_simp

text \<open>
  The same happens below the last ticket of a short list: two tickets in a body of
  four rows, the highlight moved down twice to the third row.
\<close>

lemma action_open_below_last_ticket_raises:
  "action_open (scroll list_next (None, 5) 1 (scroll list_next (None, 5) 1
     (init list_next [1, 2::nat]))) = Inl IndexError"
  by code_simp

subsection \<open>The scenarios of the specification\<close>

text \<open>The keys that move are movements of \<open>scroll\<close>; a page is the capacity of the body.\<close>

lemma keypress_down: "keypress nxt sz ''down'' s = Inr (scroll nxt sz 1 s)"
  by (simp add: keypress_def key_movements_def Let_def)

lemma keypress_up: "keypress nxt sz ''up'' s = Inr (scroll nxt sz (- 1) s)"
  by (simp add: keypress_def key_movements_def Let_def)

lemma keypress_page_down:
  "keypress nxt sz ''page down'' s = Inr (scroll nxt sz (snd sz - nonbody_overhead) s)"
  by (simp add: keypress_def key_movements_def page_speed_def Let_def)

lemma keypress_page_up:
  "keypress nxt sz ''page up'' s = Inr (scroll nxt sz (- (snd sz - nonbody_overhead)) s)"
  by (simp add: keypress_def key_movements_def page_speed_def Let_def)

text \<open>
  Ten tickets, a height of 5, so a body of four rows. Three times down: the highlight is
  on the last row. Once more: the highlight stays, the offset is 1, and the window
  shows tickets 2 to 5 with ticket 5 highlighted.
\<close>

lemma scenario_down:
  "index_highlighted (scroll list_next (None, 5) 1 (scroll list_next (None, 5) 1
     (scroll list_next (None, 5) 1 (init list_next [1, 2, 3, 4, 5, 6, 7, 8, 9, 10::nat])))) = 3"
  "offset (scroll list_next (None, 5) 1 (scroll list_next (None, 5) 1
     (scroll list_next (None, 5) 1 (init list_next [1, 2, 3, 4, 5, 6, 7, 8, 9, 10::nat])))) = 0"
  "index_highlighted (scroll list_next (None, 5) 1 (scroll list_next (None, 5) 1
     (scroll list_next (None, 5) 1 (scroll list_next (None, 5) 1
       (init list_next [1, 2, 3, 4, 5, 6, 7, 8, 9, 10::nat]))))) = 3"
  "offset (scroll list_next (None, 5) 1 (scroll list_next (None, 5) 1
     (scroll list_next (None, 5) 1 (scroll list_next (None, 5) 1
       (init list_next [1, 2, 3, 4, 5, 6, 7, 8, 9, 10::nat]))))) = 1"
  "body (scroll list_next (None, 5) 1 (scroll list_next (None, 5) 1
     (scroll list_next (None, 5) 1 (scroll list_next (None, 5) 1
       (init list_next [1, 2, 3, 4, 5, 6, 7, 8, 9, 10::nat])))))
   = [(2, False), (3, False), (4, False), (5, True)]"
  by code_simp+

text \<open>Page down from the start: the highlight takes 3 of the 4, the offset the rest.\<close>

lemma scenario_page_down:
  "keypress list_next (None, 5) ''page down''
     (init list_next [1, 2, 3, 4, 5, 6, 7, 8, 9, 10::nat])
   = Inr (scroll list_next (None, 5) 4 (init list_next [1, 2, 3, 4, 5, 6, 7, 8, 9, 10::nat]))"
  "index_highlighted
     (scroll list_next (None, 5) 4 (init list_next [1, 2, 3, 4, 5, 6, 7, 8, 9, 10::nat])) = 3"
  "offset
     (scroll list_next (None, 5) 4 (init list_next [1, 2, 3, 4, 5, 6, 7, 8, 9, 10::nat])) = 1"
  by code_simp+

text \<open>
  A resize to a height of 2 with the highlight on row 3: the render alone brings the
  highlight to row 0. The three rows it gives up go to the offset, so the highlighted
  ticket is the same as before.
\<close>

lemma scenario_resize:
  "index_highlighted (render list_next (None, 2)
     (scroll list_next (None, 5) 3 (init list_next [1, 2, 3, 4, 5, 6, 7, 8, 9, 10::nat]))) = 0"
  "offset (render list_next (None, 2)
     (scroll list_next (None, 5) 3 (init list_next [1, 2, 3, 4, 5, 6, 7, 8, 9, 10::nat]))) = 3"
  "body (render list_next (None, 2)
     (scroll list_next (None, 5) 3 (init list_next [1, 2, 3, 4, 5, 6, 7, 8, 9, 10::nat])))
   = [(4, True)]"
  by code_simp+

end
